theory Spec2Isabelle
  imports Complex_Main
begin

section \<open>Python values\<close>

text \<open>
  A Python \<open>str\<close> is a sequence of Unicode code points; a code point is a natural number.
  String literals of the source are written with \<open>lit\<close>.
\<close>

type_synonym pystr = "nat list"

definition lit :: "string \<Rightarrow> pystr" where
  "lit s = map of_char s"

text \<open>
  A Python \<open>float\<close>: a finite value, carried exactly as a real number, or one of the
  three non-finite values. Signed zeros are not distinguished, and arithmetic on finite
  values is that of the reals: the rounding of each operation is not modelled. What the
  properties below rest on is exact on doubles too: comparisons, absolute values, the
  remainder being zero, and the sum of a number and its negation.
\<close>

datatype pyfloat = Finite real | PosInf | NegInf | NaN

text \<open>JSON-shaped Python values; a \<open>dict\<close> keeps its insertion order.\<close>

datatype pyval =
    PNone
  | PBool bool
  | PInt int
  | PFloat pyfloat
  | PStr pystr
  | PList "pyval list"
  | PDict "(pystr \<times> pyval) list"

type_synonym pydict = "(pystr \<times> pyval) list"

datatype py_error = TypeError | ValueError | ZeroDivisionError | OverflowError | AttributeError

text \<open>
  What the interpreter supplies and the repository only calls: the Unicode database
  (decimal value and full upper-casing of a non-ASCII code point), the rounding of an exact
  decimal to the nearest double, the SHA-256 hex digest and the JSON serialiser.
\<close>

record platform =
  to_decimal :: "nat \<Rightarrow> nat option"
  to_upper :: "nat \<Rightarrow> nat list"
  to_double :: "real \<Rightarrow> pyfloat"
  sha256_hexdigest :: "pystr \<Rightarrow> pystr"
  json_dumps :: "pydict \<Rightarrow> pystr"

subsection \<open>Dictionaries\<close>

definition dict_get :: "pydict \<Rightarrow> pystr \<Rightarrow> pyval option" where
  "dict_get d k = map_of d k"

text \<open>\<open>d[k] = v\<close>: an existing key keeps its position, a new key goes last.\<close>

fun dict_set :: "pydict \<Rightarrow> pystr \<Rightarrow> pyval \<Rightarrow> pydict" where
  "dict_set [] k v = [(k, v)]"
| "dict_set ((k', v') # d) k v = (if k' = k then (k, v) # d else (k', v') # dict_set d k v)"

text \<open>\<open>d.update(other)\<close>: the items of \<open>other\<close> are stored in their order.\<close>

fun dict_update :: "pydict \<Rightarrow> pydict \<Rightarrow> pydict" where
  "dict_update d [] = d"
| "dict_update d ((k, v) # other) = dict_update (dict_set d k v) other"

subsection \<open>Characters and whitespace\<close>

text \<open>\<open>str.isspace\<close> on one code point, the table of CPython's \<open>Py_UNICODE_ISSPACE\<close>.\<close>

definition isspace :: "nat \<Rightarrow> bool" where
  "isspace c \<longleftrightarrow>
     (0x09 \<le> c \<and> c \<le> 0x0D) \<or> (0x1C \<le> c \<and> c \<le> 0x20) \<or> c = 0x85 \<or> c = 0xA0
     \<or> c = 0x1680 \<or> (0x2000 \<le> c \<and> c \<le> 0x200A) \<or> c = 0x2028 \<or> c = 0x2029
     \<or> c = 0x202F \<or> c = 0x205F \<or> c = 0x3000"

text \<open>\<open>Py_ISSPACE\<close>, the ASCII whitespace the number parsers skip.\<close>

definition c_isspace :: "nat \<Rightarrow> bool" where
  "c_isspace c \<longleftrightarrow> (0x09 \<le> c \<and> c \<le> 0x0D) \<or> c = 0x20"

definition lstrip :: "(nat \<Rightarrow> bool) \<Rightarrow> pystr \<Rightarrow> pystr" where
  "lstrip p s = dropWhile p s"

definition rstrip :: "(nat \<Rightarrow> bool) \<Rightarrow> pystr \<Rightarrow> pystr" where
  "rstrip p s = rev (dropWhile p (rev s))"

text \<open>\<open>s.strip()\<close>\<close>

definition strip :: "pystr \<Rightarrow> pystr" where
  "strip s = rstrip isspace (lstrip isspace s)"

text \<open>\<open>s.upper()\<close>: every code point is replaced by its full upper-case mapping.\<close>

definition upper_char :: "platform \<Rightarrow> nat \<Rightarrow> nat list" where
  "upper_char P c =
     (if c < 128 then (if 97 \<le> c \<and> c \<le> 122 then [c - 32] else [c]) else to_upper P c)"

definition upper :: "platform \<Rightarrow> pystr \<Rightarrow> pystr" where
  "upper P s = concat (map (upper_char P) s)"

definition is_digit :: "nat \<Rightarrow> bool" where
  "is_digit c \<longleftrightarrow> 48 \<le> c \<and> c \<le> 57"

definition is_hexdigit :: "nat \<Rightarrow> bool" where
  "is_hexdigit c \<longleftrightarrow> is_digit c \<or> (65 \<le> c \<and> c \<le> 70) \<or> (97 \<le> c \<and> c \<le> 102)"

definition digit_value :: "nat \<Rightarrow> nat" where
  "digit_value c = (if c \<le> 57 then c - 48 else if c \<le> 70 then c - 55 else c - 87)"

subsection \<open>Number parsing: what \<open>int(s, 16)\<close> and \<open>float(s)\<close> do with a string\<close>

text \<open>
  Both first map every non-ASCII decimal digit to its ASCII digit and every non-ASCII space
  to a blank; the first other non-ASCII code point becomes a question mark and ends the string.
\<close>

fun transform_decimal_and_space :: "platform \<Rightarrow> pystr \<Rightarrow> pystr" where
  "transform_decimal_and_space P [] = []"
| "transform_decimal_and_space P (c # cs) =
     (if c < 127 then c # transform_decimal_and_space P cs
      else if isspace c then 32 # transform_decimal_and_space P cs
      else (case to_decimal P c of
              None \<Rightarrow> [63]
            | Some d \<Rightarrow> (48 + d) # transform_decimal_and_space P cs))"

text \<open>No underscore at either end of a digit run and no two in a row.\<close>

fun underscores_ok :: "pystr \<Rightarrow> bool" where
  "underscores_ok [] = True"
| "underscores_ok [c] = (c \<noteq> 95)"
| "underscores_ok (c # d # cs) = (\<not> (c = 95 \<and> d = 95) \<and> underscores_ok (d # cs))"

definition hex_value :: "pystr \<Rightarrow> int" where
  "hex_value ds = int (foldl (\<lambda>acc c. 16 * acc + digit_value c) 0 ds)"

text \<open>
  \<open>int(s, 16)\<close>; \<open>None\<close> is the \<open>ValueError\<close>. Leading whitespace, a sign, an optional
  \<open>0x\<close> prefix (one underscore may follow it), the digits with single underscores between
  them, trailing whitespace.
\<close>

definition int_base16 :: "platform \<Rightarrow> pystr \<Rightarrow> int option" where
  "int_base16 P s =
     (let t = lstrip c_isspace (transform_decimal_and_space P s);
          (sign, t) = (case t of
                         c # r \<Rightarrow> if c = 43 then (1, r) else if c = 45 then (- 1, r) else (1, t)
                       | [] \<Rightarrow> (1, t));
          t = (case t of
                 z # x # r \<Rightarrow>
                   if z = 48 \<and> (x = 120 \<or> x = 88)
                   then (case r of u # r' \<Rightarrow> if u = 95 then r' else r | [] \<Rightarrow> r)
                   else t
               | _ \<Rightarrow> t);
          run = takeWhile (\<lambda>c. is_hexdigit c \<or> c = 95) t;
          rest = lstrip c_isspace (dropWhile (\<lambda>c. is_hexdigit c \<or> c = 95) t)
      in if run \<noteq> [] \<and> hd run \<noteq> 95 \<and> underscores_ok run \<and> rest = []
         then Some (sign * hex_value (filter (\<lambda>c. c \<noteq> 95) run))
         else None)"

section \<open>ContentMapper: colours\<close>

text \<open>\<open>ContentMapper.hex_to_rgb\<close>; \<open>lstrip('#')\<close> removes every leading \<open>#\<close>.\<close>

definition hex_to_rgb :: "platform \<Rightarrow> pystr \<Rightarrow> (int \<times> int \<times> int) option" where
  "hex_to_rgb P hex_color =
     (let h = lstrip (\<lambda>c. c = 35) hex_color;
          h = (if length h = 3 then concat (map (\<lambda>c. [c, c]) h) else h)
      in if length h \<noteq> 6 then None
         else (case int_base16 P (take 2 h) of
                 None \<Rightarrow> None
               | Some r \<Rightarrow>
                  (case int_base16 P (take 2 (drop 2 h)) of
                     None \<Rightarrow> None
                   | Some g \<Rightarrow>
                      (case int_base16 P (take 2 (drop 4 h)) of
                         None \<Rightarrow> None
                       | Some b \<Rightarrow> Some (r, g, b)))))"

text \<open>\<open>'{:02x}'.format(n)\<close>: lower-case hexadecimal, zero-padded after the sign to width 2.\<close>

definition hex_char :: "nat \<Rightarrow> nat" where
  "hex_char d = (if d < 10 then 48 + d else 87 + d)"

fun hex_digits :: "nat \<Rightarrow> pystr" where
  "hex_digits n =
     (if n < 16 then [hex_char n] else hex_digits (n div 16) @ [hex_char (n mod 16)])"

definition format_02x :: "int \<Rightarrow> pystr" where
  "format_02x n =
     (if n < 0 then 45 # hex_digits (nat (- n))
      else replicate (2 - length (hex_digits (nat n))) 48 @ hex_digits (nat n))"

text \<open>\<open>round(x)\<close> and \<open>round(x, 2)\<close>: ties go to the even neighbour.\<close>

definition py_round :: "real \<Rightarrow> int" where
  "py_round x =
     (let f = \<lfloor>x\<rfloor>; d = x - of_int f
      in if d < 1 / 2 then f else if 1 / 2 < d then f + 1 else if even f then f else f + 1)"

definition round2 :: "real \<Rightarrow> real" where
  "round2 x = of_int (py_round (x * 100)) / 100"

text \<open>
  \<open>ContentMapper.rgb_to_hsl\<close>. The two divisions that compute the saturation raise
  \<open>ZeroDivisionError\<close> on a zero divisor; \<open>d\<close> is non-zero where the hue divides by it.
\<close>

definition rgb_to_hsl :: "int \<Rightarrow> int \<Rightarrow> int \<Rightarrow> py_error + (real \<times> real \<times> real)" where
  "rgb_to_hsl r0 g0 b0 =
     (let r = real_of_int r0 / 255; g = real_of_int g0 / 255; b = real_of_int b0 / 255;
          max_c = max (max r g) b;
          min_c = min (min r g) b;
          l = (max_c + min_c) / 2
      in if max_c = min_c then Inr (0 * 360, 0, l)
         else
           (let d = max_c - min_c;
                h = (if max_c = r then ((g - b) / d + (if g < b then 6 else 0)) / 6
                     else if max_c = g then ((b - r) / d + 2) / 6
                     else ((r - g) / d + 4) / 6)
            in if 1 / 2 < l
               then (if 2 - max_c - min_c = 0 then Inl ZeroDivisionError
                     else Inr (h * 360, d / (2 - max_c - min_c), l))
               else (if max_c + min_c = 0 then Inl ZeroDivisionError
                     else Inr (h * 360, d / (max_c + min_c), l))))"

text \<open>\<open>ContentMapper._get_complementary_color\<close>\<close>

definition get_complementary_color :: "platform \<Rightarrow> pystr \<Rightarrow> pystr" where
  "get_complementary_color P hex_color =
     (case hex_to_rgb P hex_color of
        None \<Rightarrow> lit ''#000000''
      | Some (r, g, b) \<Rightarrow>
          35 # format_02x (255 - r) @ format_02x (255 - g) @ format_02x (255 - b))"

text \<open>
  \<open>ContentMapper.color_to_sound\<close>. A tuple of three numbers is never falsy, so
  \<open>not rgb\<close> holds for \<open>None\<close> only.
\<close>

definition color_to_sound :: "platform \<Rightarrow> pystr \<Rightarrow> py_error + pydict" where
  "color_to_sound P hex_color =
     (case hex_to_rgb P hex_color of
        None \<Rightarrow>
          Inr [(lit ''frequency'', PInt 440),
               (lit ''waveform'', PStr (lit ''sine'')),
               (lit ''rgb'', PNone),
               (lit ''hsl'', PNone),
               (lit ''error'', PStr (lit ''Invalid color format''))]
      | Some (r, g, b) \<Rightarrow>
          (case rgb_to_hsl r g b of
             Inl e \<Rightarrow> Inl e
           | Inr (h, s, l) \<Rightarrow>
               (let frequency = 200 + (h / 360) * 600;
                    waveform = (if 7 / 10 < s then lit ''sawtooth''
                                else if 4 / 10 < s then lit ''triangle''
                                else lit ''sine'');
                    volume_modifier = 1 / 2 + l * (1 / 2)
                in Inr [(lit ''frequency'', PFloat (Finite (round2 frequency))),
                        (lit ''waveform'', PStr waveform),
                        (lit ''volume_modifier'', PFloat (Finite (round2 volume_modifier))),
                        (lit ''rgb'', PDict [(lit ''r'', PInt r), (lit ''g'', PInt g),
                                             (lit ''b'', PInt b)]),
                        (lit ''hsl'', PDict [(lit ''h'', PFloat (Finite (round2 h))),
                                             (lit ''s'', PFloat (Finite (round2 s))),
                                             (lit ''l'', PFloat (Finite (round2 l)))]),
                        (lit ''complementary'', PStr (get_complementary_color P hex_color))])))"

section \<open>ContentMapper: text\<close>

definition PENTATONIC_SCALE :: "int list" where
  "PENTATONIC_SCALE = [0, 2, 4, 7, 9]"

definition MAJOR_SCALE :: "int list" where
  "MAJOR_SCALE = [0, 2, 4, 5, 7, 9, 11]"

definition MINOR_SCALE :: "int list" where
  "MINOR_SCALE = [0, 2, 3, 5, 7, 8, 10]"

definition BASE_FREQUENCY :: real where
  "BASE_FREQUENCY = 220"

record mapper =
  scale :: "int list"
  scale_name :: pystr

definition get_scale :: "pystr \<Rightarrow> int list" where
  "get_scale name =
     (if name = lit ''pentatonic'' then PENTATONIC_SCALE
      else if name = lit ''major'' then MAJOR_SCALE
      else if name = lit ''minor'' then MINOR_SCALE
      else PENTATONIC_SCALE)"

definition ContentMapper :: "pystr \<Rightarrow> mapper" where
  "ContentMapper name = \<lparr>scale = get_scale name, scale_name = name\<rparr>"

definition set_scale :: "mapper \<Rightarrow> pystr \<Rightarrow> mapper" where
  "set_scale self name = self\<lparr>scale := get_scale name, scale_name := name\<rparr>"

text \<open>
  \<open>ContentMapper.char_to_frequency\<close>. \<open>ord\<close> raises \<open>TypeError\<close> unless its argument is
  one code point long; \<open>%\<close> and \<open>//\<close> raise on an empty scale.
\<close>

definition char_to_frequency :: "platform \<Rightarrow> mapper \<Rightarrow> pystr \<Rightarrow> py_error + real" where
  "char_to_frequency P self char =
     (if char = [] then Inr BASE_FREQUENCY
      else (case upper P char of
              [char_code] \<Rightarrow>
                if 65 \<le> char_code \<and> char_code \<le> 90 then
                  (let note_index = char_code - 65
                   in if length (scale self) = 0 then Inl ZeroDivisionError
                      else
                        (let scale_index = note_index mod length (scale self);
                             octave_offset = (note_index div length (scale self)) * 12;
                             semitones = scale self ! scale_index + int octave_offset
                         in Inr (BASE_FREQUENCY * 2 powr (real_of_int semitones / 12))))
                else if 48 \<le> char_code \<and> char_code \<le> 57 then
                  (let num_value = char_code - 48
                   in Inr (BASE_FREQUENCY * 2 powr (real num_value / 12)))
                else Inr BASE_FREQUENCY
            | _ \<Rightarrow> Inl TypeError))"

text \<open>\<open>str(n)\<close> for an integer.\<close>

fun dec_digits :: "nat \<Rightarrow> pystr" where
  "dec_digits n = (if n < 10 then [48 + n] else dec_digits (n div 10) @ [48 + n mod 10])"

definition str_int :: "int \<Rightarrow> pystr" where
  "str_int n = (if n < 0 then 45 # dec_digits (nat (- n)) else dec_digits (nat n))"

definition NOTES :: "pystr list" where
  "NOTES = [lit ''C'', lit ''C#'', lit ''D'', lit ''D#'', lit ''E'', lit ''F'', lit ''F#'',
            lit ''G'', lit ''G#'', lit ''A'', lit ''A#'', lit ''B'']"

text \<open>\<open>ContentMapper._frequency_to_note\<close>\<close>

definition frequency_to_note :: "real \<Rightarrow> pystr" where
  "frequency_to_note frequency =
     (if frequency \<le> 0 then lit ''rest''
      else
        (let semitones = 12 * log 2 (frequency / 440) + 69;
             note_index = py_round semitones mod 12;
             octave = py_round semitones div 12 - 1
         in NOTES ! nat note_index @ str_int octave))"

text \<open>
  \<open>ContentMapper.text_to_frequencies\<close>: the loop over \<open>enumerate(text)\<close>, with the
  list built so far and the next index; an exception of \<open>char_to_frequency\<close> ends the call.
\<close>

fun text_to_frequencies_loop ::
  "platform \<Rightarrow> mapper \<Rightarrow> pyval list \<Rightarrow> nat \<Rightarrow> pystr \<Rightarrow> py_error + pyval list"
where
  "text_to_frequencies_loop P self result i [] = Inr result"
| "text_to_frequencies_loop P self result i (c # text) =
     (if strip [c] \<noteq> [] then
        (case char_to_frequency P self [c] of
           Inl e \<Rightarrow> Inl e
         | Inr freq \<Rightarrow>
             text_to_frequencies_loop P self
               (result @ [PDict [(lit ''index'', PInt (int i)),
                                 (lit ''char'', PStr [c]),
                                 (lit ''frequency'', PFloat (Finite (round2 freq))),
                                 (lit ''note'', PStr (frequency_to_note freq)),
                                 (lit ''duration'', PFloat (Finite (2 / 10)))]])
               (i + 1) text)
      else
        text_to_frequencies_loop P self
          (result @ [PDict [(lit ''index'', PInt (int i)),
                            (lit ''char'', PStr [c]),
                            (lit ''frequency'', PInt 0),
                            (lit ''note'', PStr (lit ''rest'')),
                            (lit ''duration'', PFloat (Finite (1 / 10)))]])
          (i + 1) text)"

definition text_to_frequencies :: "platform \<Rightarrow> mapper \<Rightarrow> pystr \<Rightarrow> py_error + pyval list" where
  "text_to_frequencies P self text = text_to_frequencies_loop P self [] 0 text"

section \<open>ContentMapper: numbers\<close>

text \<open>\<open>x % m\<close> on floats for a positive \<open>m\<close>: the result has the sign of \<open>m\<close>.\<close>

definition py_mod :: "real \<Rightarrow> real \<Rightarrow> real" where
  "py_mod x m = x - m * of_int \<lfloor>x / m\<rfloor>"

text \<open>
  \<open>ContentMapper.number_to_pattern\<close>. On a non-finite number the arithmetic up to
  \<open>int(abs_num)\<close> yields NaN without raising; \<open>int\<close> then raises \<open>OverflowError\<close> on an
  infinity and \<open>ValueError\<close> on NaN.
\<close>

definition number_to_pattern :: "pyfloat \<Rightarrow> py_error + pydict" where
  "number_to_pattern number =
     (case number of
        PosInf \<Rightarrow> Inl OverflowError
      | NegInf \<Rightarrow> Inl OverflowError
      | NaN \<Rightarrow> Inl ValueError
      | Finite x \<Rightarrow>
          (let abs_num = \<bar>x\<bar>;
               frequency = 100 * (10 powr (py_mod abs_num 100 / 100));
               pattern = (if py_mod x 7 = 0 then lit ''wave''
                          else if py_mod x 5 = 0 then lit ''sweep''
                          else if py_mod x 3 = 0 then lit ''arpeggio''
                          else if py_mod x 2 = 0 then lit ''pulse''
                          else lit ''steady'');
               sides = 3 + (\<lfloor>abs_num\<rfloor> mod 7);
               rotation_speed = py_mod abs_num 10 + 1;
               color_shift = py_mod (abs_num * 30) 360
           in Inr [(lit ''frequency'', PFloat (Finite (round2 frequency))),
                   (lit ''pattern'', PStr pattern),
                   (lit ''oscillator_count'', PInt (min (\<lfloor>abs_num / 10\<rfloor> + 1) 5)),
                   (lit ''visual'', PDict [(lit ''sides'', PInt sides),
                                           (lit ''rotation_speed'', PFloat (Finite rotation_speed)),
                                           (lit ''color_hue'', PFloat (Finite color_shift)),
                                           (lit ''particle_count'', PInt (min \<lfloor>abs_num\<rfloor> 100))]),
                   (lit ''is_negative'', PBool (x < 0)),
                   (lit ''magnitude'', PFloat (Finite abs_num))]))"

section \<open>ContentMapper: content-type detection\<close>

text \<open>
  \<open>float(s)\<close>; \<open>None\<close> is the \<open>ValueError\<close>. First the pass over the underscores: one
  is allowed only between two digits.
\<close>

fun strip_underscores :: "nat \<Rightarrow> pystr \<Rightarrow> pystr option" where
  "strip_underscores prev [] = (if prev = 95 then None else Some [])"
| "strip_underscores prev (c # cs) =
     (if c = 95 then (if is_digit prev then strip_underscores c cs else None)
      else if prev = 95 \<and> \<not> is_digit c then None
      else map_option ((#) c) (strip_underscores c cs))"

definition dec_value :: "pystr \<Rightarrow> nat" where
  "dec_value ds = foldl (\<lambda>acc c. 10 * acc + (c - 48)) 0 ds"

definition split_sign :: "pystr \<Rightarrow> bool \<times> pystr" where
  "split_sign t =
     (case t of
        c # r \<Rightarrow> if c = 45 then (True, r) else if c = 43 then (False, r) else (False, t)
      | [] \<Rightarrow> (False, t))"

definition ascii_lower :: "nat \<Rightarrow> nat" where
  "ascii_lower c = (if 65 \<le> c \<and> c \<le> 90 then c + 32 else c)"

text \<open>\<open>inf\<close>, \<open>infinity\<close> and \<open>nan\<close> in any letter case, after an optional sign.\<close>

definition parse_inf_or_nan :: "pystr \<Rightarrow> pyfloat option" where
  "parse_inf_or_nan t =
     (let (negate, u) = split_sign t; w = map ascii_lower u
      in if w = lit ''inf'' \<or> w = lit ''infinity'' then Some (if negate then NegInf else PosInf)
         else if w = lit ''nan'' then Some NaN
         else None)"

text \<open>
  The decimal grammar: a sign, digits with an optional point (at least one digit), and an
  exponent that counts only when it has a digit. The exact decimal value is rounded to a
  double by the platform.
\<close>

definition parse_decimal :: "platform \<Rightarrow> pystr \<Rightarrow> pyfloat option" where
  "parse_decimal P t =
     (let (negate, u) = split_sign t;
          int_digits = takeWhile is_digit u;
          r1 = dropWhile is_digit u;
          (frac_digits, r2) =
             (case r1 of
                c # r \<Rightarrow> if c = 46 then (takeWhile is_digit r, dropWhile is_digit r) else ([], r1)
              | [] \<Rightarrow> ([], r1))
      in if int_digits = [] \<and> frac_digits = [] then None
         else
           (let (e, r3) =
                  (case r2 of
                     c # r \<Rightarrow>
                       if c = 101 \<or> c = 69 then
                         (let (eneg, r') = split_sign r;
                              exp_digits = takeWhile is_digit r'
                          in if exp_digits = [] then (0, r2)
                             else (if eneg then - int (dec_value exp_digits)
                                   else int (dec_value exp_digits),
                                   dropWhile is_digit r'))
                       else (0, r2)
                   | [] \<Rightarrow> (0, r2));
                m = real (dec_value (int_digits @ frac_digits));
                k = e - int (length frac_digits);
                v = (if 0 \<le> k then m * 10 ^ nat k else m / 10 ^ nat (- k))
            in if r3 \<noteq> [] then None
               else Some (to_double P (if negate then - v else v))))"

definition py_float :: "platform \<Rightarrow> pystr \<Rightarrow> pyfloat option" where
  "py_float P s =
     (case strip_underscores 0 (transform_decimal_and_space P s) of
        None \<Rightarrow> None
      | Some t \<Rightarrow>
          (let t = rstrip c_isspace (lstrip c_isspace t)
           in case parse_decimal P t of
                Some x \<Rightarrow> Some x
              | None \<Rightarrow> parse_inf_or_nan t))"

text \<open>Truth value of a Python value, and \<open>isinstance(v, str)\<close>.\<close>

fun truthy :: "pyval \<Rightarrow> bool" where
  "truthy PNone = False"
| "truthy (PBool b) = b"
| "truthy (PInt n) = (n \<noteq> 0)"
| "truthy (PFloat x) = (x \<noteq> Finite 0)"
| "truthy (PStr s) = (s \<noteq> [])"
| "truthy (PList xs) = (xs \<noteq> [])"
| "truthy (PDict d) = (d \<noteq> [])"

fun is_str :: "pyval \<Rightarrow> bool" where
  "is_str (PStr s) = True"
| "is_str v = False"

text \<open>\<open>ContentMapper.detect_content_type\<close>\<close>

definition detect_content_type :: "platform \<Rightarrow> pyval \<Rightarrow> pydict" where
  "detect_content_type P content =
     (if \<not> truthy content \<or> \<not> is_str content
      then [(lit ''type'', PStr (lit ''unknown'')), (lit ''value'', PNone)]
      else
        (case content of
           PStr s \<Rightarrow>
             (let content = strip s; hex_part = drop 1 content
              in if take 1 content = lit ''#''
                    \<and> (length hex_part = 3 \<or> length hex_part = 6)
                    \<and> list_all (\<lambda>c. c \<in> set (lit ''0123456789ABCDEFabcdef'')) hex_part
                 then [(lit ''type'', PStr (lit ''color'')), (lit ''value'', PStr content)]
                 else
                   (case py_float P content of
                      Some num \<Rightarrow> [(lit ''type'', PStr (lit ''number'')), (lit ''value'', PFloat num)]
                    | None \<Rightarrow>
                        if content \<noteq> []
                        then [(lit ''type'', PStr (lit ''text'')), (lit ''value'', PStr content)]
                        else [(lit ''type'', PStr (lit ''unknown'')), (lit ''value'', PNone)]))
         | _ \<Rightarrow> [(lit ''type'', PStr (lit ''unknown'')), (lit ''value'', PNone)]))"

section \<open>UserPreferences\<close>

text \<open>\<open>self.preferences\<close>: the record of each hashed user id.\<close>

type_synonym preferences = "pystr \<rightharpoonup> pydict"

text \<open>\<open>UserPreferences._get_user_id\<close>\<close>

definition get_user_id :: "platform \<Rightarrow> pystr \<Rightarrow> pystr" where
  "get_user_id P identifier = take 16 (sha256_hexdigest P identifier)"

definition default_preferences :: pydict where
  "default_preferences =
     [(lit ''volume'', PInt 50),
      (lit ''speed'', PInt 5),
      (lit ''intensity'', PInt 70),
      (lit ''scale'', PStr (lit ''pentatonic'')),
      (lit ''presets'', PList [])]"

text \<open>\<open>UserPreferences.get_preferences\<close>\<close>

definition get_preferences :: "platform \<Rightarrow> preferences \<Rightarrow> pystr \<Rightarrow> pydict" where
  "get_preferences P prefs user_id =
     (case prefs (get_user_id P user_id) of
        Some d \<Rightarrow> d
      | None \<Rightarrow> default_preferences)"

text \<open>\<open>UserPreferences.set_preferences\<close>: the new state and the returned record.\<close>

definition set_preferences ::
  "platform \<Rightarrow> preferences \<Rightarrow> pystr \<Rightarrow> pydict \<Rightarrow> preferences \<times> pydict" where
  "set_preferences P prefs user_id p =
     (let hashed_id = get_user_id P user_id;
          current = dict_update (get_preferences P prefs user_id) p
      in (prefs(hashed_id \<mapsto> current), current))"

text \<open>
  \<open>UserPreferences.add_preset\<close>: the new state and the returned list. \<open>append\<close> exists
  on a list only.
\<close>

definition add_preset ::
  "platform \<Rightarrow> preferences \<Rightarrow> pystr \<Rightarrow> pydict \<Rightarrow> py_error + (preferences \<times> pyval list)" where
  "add_preset P prefs user_id preset =
     (let d = get_preferences P prefs user_id
      in case (case dict_get d (lit ''presets'') of
                 None \<Rightarrow> Some (PList [])
               | Some v \<Rightarrow> Some v) of
           Some (PList presets) \<Rightarrow>
             (let preset = dict_set preset (lit ''id'')
                             (PStr (take 8 (sha256_hexdigest P (json_dumps P preset))));
                  presets = presets @ [PDict preset];
                  d = dict_set d (lit ''presets'') (PList (take 10 presets))
              in Inr (fst (set_preferences P prefs user_id d), take 10 presets))
         | _ \<Rightarrow> Inl AttributeError)"

section \<open>The route \<open>/api/map/auto\<close>\<close>

definition total_duration :: "pyval list \<Rightarrow> pyval" where
  "total_duration fs =
     (if fs = [] then PInt 0
      else PFloat (Finite (sum_list (map (\<lambda>f. case f of
               PDict d \<Rightarrow> (case dict_get d (lit ''duration'') of
                              Some (PFloat (Finite x)) \<Rightarrow> x
                            | _ \<Rightarrow> 0)
             | _ \<Rightarrow> 0) fs))))"

text \<open>
  \<open>map_auto\<close> on the request's \<open>content\<close>: the response body, or the exception that
  leaves the handler. The \<open>TypeError\<close> branches stand for values that
  \<open>detect_content_type\<close> never returns.
\<close>

definition map_auto :: "platform \<Rightarrow> mapper \<Rightarrow> pyval \<Rightarrow> py_error + pydict" where
  "map_auto P content_mapper content =
     (let detected = detect_content_type P content;
          mapping =
            (case (dict_get detected (lit ''type''), dict_get detected (lit ''value'')) of
               (Some (PStr t), Some v) \<Rightarrow>
                 if t = lit ''text'' then
                   (case v of
                      PStr s \<Rightarrow>
                        (case text_to_frequencies P content_mapper s of
                           Inl e \<Rightarrow> Inl e
                         | Inr fs \<Rightarrow> Inr [(lit ''mappings'', PList fs),
                                          (lit ''total_duration'', total_duration fs)])
                    | _ \<Rightarrow> Inl TypeError)
                 else if t = lit ''color'' then
                   (case v of PStr s \<Rightarrow> color_to_sound P s | _ \<Rightarrow> Inl TypeError)
                 else if t = lit ''number'' then
                   (case v of PFloat x \<Rightarrow> number_to_pattern x | _ \<Rightarrow> Inl TypeError)
                 else Inr []
             | _ \<Rightarrow> Inl TypeError)
      in case mapping of
           Inl e \<Rightarrow> Inl e
         | Inr m \<Rightarrow> Inr [(lit ''detected'', PDict detected), (lit ''mapping'', PDict m)])"

text \<open>
  An excerpt of CPython's tables for evaluating the functions on concrete inputs: the
  Arabic-Indic digits, the upper-case mappings of \<open>U+00DF\<close>, \<open>U+0131\<close> and \<open>U+017F\<close>, and
  rounding as the identity, which is what it is on the doubles. The digest and the
  serialiser are constant functions: the evaluations below concern one user at a time and
  hold for every digest.
\<close>

definition cpython_excerpt :: platform where
  "cpython_excerpt =
     \<lparr>to_decimal = (\<lambda>c. if 0x660 \<le> c \<and> c \<le> 0x669 then Some (c - 0x660) else None),
      to_upper = (\<lambda>c. if c = 0xDF then [0x53, 0x53]
                      else if c = 0x131 then [0x49]
                      else if c = 0x17F then [0x53]
                      else [c]),
      to_double = Finite,
      sha256_hexdigest = (\<lambda>s. []),
      json_dumps = (\<lambda>d. [])\<rparr>"

text \<open>
  Calling \<open>add_preset\<close> once for each preset of a list, and the names of the presets a
  record holds: what the test of the preset limit does and reads.
\<close>

fun add_presets ::
  "platform \<Rightarrow> preferences \<Rightarrow> pystr \<Rightarrow> pydict list \<Rightarrow> py_error + preferences" where
  "add_presets P prefs user_id [] = Inr prefs"
| "add_presets P prefs user_id (preset # rest) =
     (case add_preset P prefs user_id preset of
        Inl e \<Rightarrow> Inl e
      | Inr (prefs', presets) \<Rightarrow> add_presets P prefs' user_id rest)"

definition preset_names :: "pydict \<Rightarrow> pyval list" where
  "preset_names d =
     (case dict_get d (lit ''presets'') of
        Some (PList ps) \<Rightarrow>
          map (\<lambda>p. case p of
                      PDict q \<Rightarrow> (case dict_get q (lit ''name'') of Some v \<Rightarrow> v | None \<Rightarrow> PNone)
                    | _ \<Rightarrow> PNone) ps
      | _ \<Rightarrow> [])"

section \<open>Auxiliary facts\<close>

lemma lit_Nil: "lit [] = []"
  by (simp add: lit_def)

lemma lit_Cons: "lit (c # cs) = of_char c # lit cs"
  by (simp add: lit_def)

lemma lit_eq_iff: "lit a = lit b \<longleftrightarrow> a = b"
  unfolding lit_def by (rule inj_map_eq_map) (simp add: inj_on_def)

lemma py_mod_zero_iff:
  assumes "0 < m"
  shows "py_mod x m = 0 \<longleftrightarrow> (\<exists>k::int. x = m * of_int k)"
proof
  assume "py_mod x m = 0"
  then have "x = m * of_int \<lfloor>x / m\<rfloor>" by (simp add: py_mod_def)
  then show "\<exists>k::int. x = m * of_int k" ..
next
  assume "\<exists>k::int. x = m * of_int k"
  then obtain k :: int where k: "x = m * of_int k" ..
  with assms have "x / m = of_int k" by simp
  then have "\<lfloor>x / m\<rfloor> = k" by simp
  with k show "py_mod x m = 0" by (simp add: py_mod_def)
qed

lemma multiple_iff_dvd:
  "(\<exists>k::int. real_of_int n = real_of_int m * of_int k) \<longleftrightarrow> m dvd n"
proof
  assume "\<exists>k::int. real_of_int n = real_of_int m * of_int k"
  then obtain k :: int where "real_of_int n = real_of_int (m * k)" by auto
  then have "n = m * k" by (simp only: of_int_eq_iff)
  then show "m dvd n" by simp
next
  assume "m dvd n"
  then obtain k where "n = m * k" ..
  then have "real_of_int n = real_of_int m * of_int k" by simp
  then show "\<exists>k::int. real_of_int n = real_of_int m * of_int k" ..
qed

lemma multiple_numeral:
  "(\<exists>k::int. (numeral n :: real) = numeral m * of_int k) \<longleftrightarrow> (numeral m :: int) dvd numeral n"
  using multiple_iff_dvd [of "numeral n" "numeral m"] by simp

lemma multiple_one:
  "(\<exists>k::int. (1 :: real) = numeral m * of_int k) \<longleftrightarrow> (numeral m :: int) dvd 1"
  using multiple_iff_dvd [of 1 "numeral m"] by simp

lemma multiple_neg_numeral:
  "(\<exists>k::int. (- numeral n :: real) = numeral m * of_int k) \<longleftrightarrow> (numeral m :: int) dvd numeral n"
  using multiple_iff_dvd [of "- numeral n" "numeral m"] by simp

lemma map_of_dict_set: "map_of (dict_set d k v) = (map_of d)(k \<mapsto> v)"
  by (induction d) auto

lemma map_of_dict_update:
  "distinct (map fst p) \<Longrightarrow>
   map_of (dict_update d p) k = (case map_of p k of Some v \<Rightarrow> Some v | None \<Rightarrow> map_of d k)"
proof (induction p arbitrary: d)
  case Nil
  then show ?case by simp
next
  case (Cons a p)
  obtain k' v' where a: "a = (k', v')" by (cases a)
  from Cons.prems a have d: "distinct (map fst p)" and n: "k' \<notin> fst ` set p" by auto
  from n have "map_of p k' = None" by (simp add: map_of_eq_None_iff)
  with Cons.IH [OF d, of "dict_set d k' v'"] a show ?case
    by (auto simp: map_of_dict_set split: option.splits)
qed

lemma transform_ascii:
  "\<forall>c\<in>set s. c < 127 \<Longrightarrow> transform_decimal_and_space P s = s"
  by (induction s) auto

lemma is_hexdigit_bounds:
  "is_hexdigit c \<Longrightarrow> 48 \<le> c \<and> c \<le> 102 \<and> c \<noteq> 95 \<and> digit_value c < 16"
  by (auto simp: is_hexdigit_def is_digit_def digit_value_def)

lemma int_base16_two_digits:
  assumes "is_hexdigit a" "is_hexdigit b"
  shows "int_base16 P [a, b] = Some (int (16 * digit_value a + digit_value b))"
proof -
  from assms have ab: "48 \<le> a" "a \<le> 102" "a \<noteq> 95" "48 \<le> b" "b \<le> 102" "b \<noteq> 95"
    using is_hexdigit_bounds by blast+
  then have t: "transform_decimal_and_space P [a, b] = [a, b]"
    by (intro transform_ascii) auto
  from ab have ns: "\<not> c_isspace a" "a \<noteq> 43" "a \<noteq> 45" "b \<noteq> 120" "b \<noteq> 88"
    using assms(2) by (auto simp: c_isspace_def is_hexdigit_def is_digit_def)
  show ?thesis
    using assms ab ns
    by (simp add: int_base16_def t lstrip_def hex_value_def)
qed

lemma hex_char_digit:
  "d < 16 \<Longrightarrow> is_hexdigit (hex_char d) \<and> digit_value (hex_char d) = d"
  by (auto simp: hex_char_def is_hexdigit_def is_digit_def digit_value_def)

lemma format_02x_byte:
  assumes "0 \<le> n" "n \<le> 255"
  shows "format_02x n = [hex_char (nat n div 16), hex_char (nat n mod 16)]"
proof (cases "nat n < 16")
  case True
  then have "hex_digits (nat n) = [hex_char (nat n)]"
    by (simp add: hex_char_def)
  with True assms show ?thesis
    by (simp add: format_02x_def hex_char_def)
next
  case False
  from assms have "nat n div 16 < 16" by linarith
  then have "hex_digits (nat n div 16) = [hex_char (nat n div 16)]"
    by (simp add: hex_char_def)
  with False have "hex_digits (nat n) = [hex_char (nat n div 16), hex_char (nat n mod 16)]"
    by (subst hex_digits.simps) (simp add: hex_char_def)
  with assms show ?thesis
    by (simp add: format_02x_def)
qed

lemma hex_to_rgb_six:
  assumes "is_hexdigit a" "is_hexdigit b" "is_hexdigit c"
    "is_hexdigit d" "is_hexdigit e" "is_hexdigit f"
    "s = [a, b, c, d, e, f] \<or> s = 35 # [a, b, c, d, e, f]"
  shows "hex_to_rgb P s
     = Some (int (16 * digit_value a + digit_value b),
             int (16 * digit_value c + digit_value d),
             int (16 * digit_value e + digit_value f))"
proof -
  from assms(1) have "a \<noteq> 35" using is_hexdigit_bounds by fastforce
  with assms(7) have "lstrip (\<lambda>c. c = 35) s = [a, b, c, d, e, f]"
    by (auto simp: lstrip_def)
  then show ?thesis
    using assms(1-6) by (simp add: hex_to_rgb_def int_base16_two_digits)
qed

lemma length_six:
  "length h = 6 \<Longrightarrow> \<exists>a b c d e f. h = [a, b, c, d, e, f]"
  by (auto simp: length_Suc_conv eval_nat_numeral)

lemma byte_of_digits:
  "digit_value a < 16 \<Longrightarrow> digit_value b < 16 \<Longrightarrow>
   0 \<le> int (16 * digit_value a + digit_value b) \<and> int (16 * digit_value a + digit_value b) \<le> 255"
  by simp

lemma complement_six:
  assumes "0 \<le> r" "r \<le> 255" "0 \<le> g" "g \<le> 255" "0 \<le> b" "b \<le> 255"
  shows "hex_to_rgb P (35 # format_02x (255 - r) @ format_02x (255 - g) @ format_02x (255 - b))
     = Some (255 - r, 255 - g, 255 - b)"
proof -
  have digits: "\<And>n::int. 0 \<le> n \<Longrightarrow> n \<le> 255 \<Longrightarrow>
      is_hexdigit (hex_char (nat n div 16)) \<and> is_hexdigit (hex_char (nat n mod 16))
      \<and> int (16 * digit_value (hex_char (nat n div 16)) + digit_value (hex_char (nat n mod 16))) = n"
  proof -
    fix n :: int
    assume n: "0 \<le> n" "n \<le> 255"
    then have "nat n div 16 < 16" "nat n mod 16 < 16" by linarith+
    then show "is_hexdigit (hex_char (nat n div 16)) \<and> is_hexdigit (hex_char (nat n mod 16))
      \<and> int (16 * digit_value (hex_char (nat n div 16)) + digit_value (hex_char (nat n mod 16))) = n"
      using hex_char_digit n by simp
  qed
  from assms have c: "0 \<le> 255 - r" "255 - r \<le> 255" "0 \<le> 255 - g" "255 - g \<le> 255"
    "0 \<le> 255 - b" "255 - b \<le> 255" by simp_all
  note dr = digits [OF c(1,2)] and dg = digits [OF c(3,4)] and db = digits [OF c(5,6)]
  have "hex_to_rgb P (35 # [hex_char (nat (255 - r) div 16), hex_char (nat (255 - r) mod 16),
          hex_char (nat (255 - g) div 16), hex_char (nat (255 - g) mod 16),
          hex_char (nat (255 - b) div 16), hex_char (nat (255 - b) mod 16)])
     = Some (int (16 * digit_value (hex_char (nat (255 - r) div 16))
                    + digit_value (hex_char (nat (255 - r) mod 16))),
             int (16 * digit_value (hex_char (nat (255 - g) div 16))
                    + digit_value (hex_char (nat (255 - g) mod 16))),
             int (16 * digit_value (hex_char (nat (255 - b) div 16))
                    + digit_value (hex_char (nat (255 - b) mod 16))))"
    using dr dg db by (intro hex_to_rgb_six) simp_all
  with dr dg db show ?thesis
    by (simp only: format_02x_byte [OF c(1,2)] format_02x_byte [OF c(3,4)]
        format_02x_byte [OF c(5,6)] append_Cons append_Nil)
qed

lemma hex_alphabet: "c \<in> set (lit ''0123456789ABCDEFabcdef'') \<longleftrightarrow> is_hexdigit c"
  unfolding lit_def is_hexdigit_def is_digit_def by simp arith

lemma py_float_empty: "py_float P [] = None"
  by (simp add: py_float_def lstrip_def rstrip_def parse_decimal_def split_sign_def
      parse_inf_or_nan_def lit_def)

lemma take_one_hash: "take 1 t = lit ''#'' \<longleftrightarrow> (\<exists>h. t = 35 # h)"
  by (cases t) (auto simp: lit_def)

lemma hex_color_iff:
  "take 1 t = lit ''#''
      \<and> (length (drop 1 t) = 3 \<or> length (drop 1 t) = 6)
      \<and> list_all (\<lambda>c. c \<in> set (lit ''0123456789ABCDEFabcdef'')) (drop 1 t)
     \<longleftrightarrow> (\<exists>h. t = 35 # h \<and> (length h = 3 \<or> length h = 6) \<and> list_all is_hexdigit h)"
  unfolding hex_alphabet by (cases t) (auto simp: lit_def)

lemma detect_content_type_str:
  "detect_content_type P (PStr s) =
   (if s = [] then [(lit ''type'', PStr (lit ''unknown'')), (lit ''value'', PNone)]
    else if \<exists>h. strip s = 35 # h \<and> (length h = 3 \<or> length h = 6) \<and> list_all is_hexdigit h
    then [(lit ''type'', PStr (lit ''color'')), (lit ''value'', PStr (strip s))]
    else (case py_float P (strip s) of
            Some num \<Rightarrow> [(lit ''type'', PStr (lit ''number'')), (lit ''value'', PFloat num)]
          | None \<Rightarrow>
              if strip s \<noteq> []
              then [(lit ''type'', PStr (lit ''text'')), (lit ''value'', PStr (strip s))]
              else [(lit ''type'', PStr (lit ''unknown'')), (lit ''value'', PNone)]))"
  unfolding detect_content_type_def Let_def hex_color_iff by simp

lemma dropWhile_hd: "s \<noteq> [] \<Longrightarrow> \<not> p (hd s) \<Longrightarrow> dropWhile p s = s"
  by (cases s) simp_all

lemma lstrip_id: "s \<noteq> [] \<Longrightarrow> \<not> p (hd s) \<Longrightarrow> lstrip p s = s"
  by (simp add: lstrip_def dropWhile_hd)

lemma rstrip_id: "s \<noteq> [] \<Longrightarrow> \<not> p (last s) \<Longrightarrow> rstrip p s = s"
  by (simp add: rstrip_def dropWhile_hd hd_rev)

lemma strip_underscores_none:
  "\<forall>c\<in>set s. c \<noteq> 95 \<Longrightarrow> prev \<noteq> 95 \<Longrightarrow> strip_underscores prev s = Some s"
  by (induction s arbitrary: prev) auto

lemma lower_letters:
  assumes "map ascii_lower w = lit ''nan'' \<or> map ascii_lower w = lit ''inf''
    \<or> map ascii_lower w = lit ''infinity''"
  shows "w \<noteq> [] \<and> (\<forall>c\<in>set w. (65 \<le> c \<and> c \<le> 90) \<or> (97 \<le> c \<and> c \<le> 122))"
proof -
  have letter: "\<And>c. 97 \<le> ascii_lower c \<and> ascii_lower c \<le> 122 \<Longrightarrow>
      (65 \<le> c \<and> c \<le> 90) \<or> (97 \<le> c \<and> c \<le> 122)"
    by (auto simp: ascii_lower_def split: if_splits)
  from assms have ne: "w \<noteq> []" by (auto simp: lit_def)
  from assms have "\<forall>d\<in>set (map ascii_lower w). 97 \<le> d \<and> d \<le> 122"
    by (auto simp: lit_def)
  then have "\<forall>c\<in>set w. 97 \<le> ascii_lower c \<and> ascii_lower c \<le> 122" by simp
  with letter ne show ?thesis by blast
qed

lemma signed_letters_parse:
  assumes w: "w \<noteq> []" "\<forall>c\<in>set w. (65 \<le> c \<and> c \<le> 90) \<or> (97 \<le> c \<and> c \<le> 122)"
    and sg: "sg = [] \<or> sg = lit ''+'' \<or> sg = lit ''-''"
  shows "strip (sg @ w) = sg @ w"
    and "\<not> (\<exists>h. sg @ w = 35 # h \<and> (length h = 3 \<or> length h = 6) \<and> list_all is_hexdigit h)"
    and "py_float P (sg @ w) = parse_inf_or_nan (sg @ w)"
    and "split_sign (sg @ w) = (sg = lit ''-'', w)"
proof -
  from w have hw: "(65 \<le> hd w \<and> hd w \<le> 90) \<or> (97 \<le> hd w \<and> hd w \<le> 122)"
    and lw: "(65 \<le> last w \<and> last w \<le> 90) \<or> (97 \<le> last w \<and> last w \<le> 122)"
    by simp_all
  obtain a v where av: "w = a # v" using w(1) by (cases w) auto
  with hw have a: "(65 \<le> a \<and> a \<le> 90) \<or> (97 \<le> a \<and> a \<le> 122)" by simp
  from sg have hd_cases: "hd (sg @ w) = hd w \<or> hd (sg @ w) = 43 \<or> hd (sg @ w) = 45"
    by (auto simp: lit_def)
  have ne: "sg @ w \<noteq> []" using w(1) by simp
  have last_eq: "last (sg @ w) = last w" using w(1) by simp
  from hd_cases hw have h1: "\<not> isspace (hd (sg @ w))" "\<not> c_isspace (hd (sg @ w))"
    by (auto simp: isspace_def c_isspace_def)
  from lw have l1: "\<not> isspace (last (sg @ w))" "\<not> c_isspace (last (sg @ w))"
    unfolding last_eq by (auto simp: isspace_def c_isspace_def)
  show st: "strip (sg @ w) = sg @ w"
    unfolding strip_def using ne h1(1) l1(1) by (simp add: lstrip_id rstrip_id)
  from hd_cases hw have "hd (sg @ w) \<noteq> 35" by auto
  then show "\<not> (\<exists>h. sg @ w = 35 # h \<and> (length h = 3 \<or> length h = 6) \<and> list_all is_hexdigit h)"
    by auto
  from w(2) sg have ascii: "\<forall>c\<in>set (sg @ w). c < 127" and nus: "\<forall>c\<in>set (sg @ w). c \<noteq> 95"
    by (auto simp: lit_def)
  have tr: "transform_decimal_and_space P (sg @ w) = sg @ w"
    using ascii by (rule transform_ascii)
  show sp: "split_sign (sg @ w) = (sg = lit ''-'', w)"
    using sg a by (auto simp: split_sign_def lit_def av)
  have nd: "\<not> is_digit a" "a \<noteq> 46" using a by (auto simp: is_digit_def)
  have pd: "parse_decimal P (sg @ w) = None"
    unfolding parse_decimal_def sp using nd by (simp add: av)
  show "py_float P (sg @ w) = parse_inf_or_nan (sg @ w)"
    unfolding py_float_def tr
    using ne h1(2) l1(2) pd by (simp add: strip_underscores_none [OF nus] lstrip_id rstrip_id)
qed

lemma strip_whitespace:
  assumes "list_all isspace s"
  shows "strip s = []"
proof -
  from assms have d: "dropWhile isspace s = []"
    by (induction s) simp_all
  show ?thesis unfolding strip_def lstrip_def rstrip_def d by simp
qed

lemma strip_padded:
  assumes l: "list_all isspace l" and r: "list_all isspace r"
    and t: "t = [] \<or> (\<not> isspace (hd t) \<and> \<not> isspace (last t))"
  shows "strip (l @ t @ r) = t"
proof (cases "t = []")
  case True
  with l r have "list_all isspace (l @ t @ r)" by simp
  with True show ?thesis by (simp add: strip_whitespace)
next
  case False
  with t have h: "\<not> isspace (hd t)" and e: "\<not> isspace (last t)" by simp_all
  from l have "dropWhile isspace (l @ t @ r) = dropWhile isspace (t @ r)"
    by (simp add: dropWhile_append2 list_all_iff)
  also from False h have "\<dots> = t @ r" by (cases t) simp_all
  finally have left: "lstrip isspace (l @ t @ r) = t @ r" by (simp add: lstrip_def)
  from r have "dropWhile isspace (rev r @ rev t) = dropWhile isspace (rev t)"
    by (intro dropWhile_append2) (simp add: list_all_iff)
  also from False e have "\<dots> = rev t" by (simp add: dropWhile_hd hd_rev)
  finally have "rstrip isspace (t @ r) = t" by (simp add: rstrip_def)
  with left show ?thesis by (simp add: strip_def)
qed

text \<open>Every string is whitespace, its trimmed part, and whitespace.\<close>

lemma strip_decomposition:
  "\<exists>l r. s = l @ strip s @ r \<and> list_all isspace l \<and> list_all isspace r
     \<and> (strip s = [] \<or> (\<not> isspace (hd (strip s)) \<and> \<not> isspace (last (strip s))))"
proof -
  define u where "u = dropWhile isspace s"
  define l where "l = takeWhile isspace s"
  define r where "r = rev (takeWhile isspace (rev u))"
  have s: "s = l @ u" by (simp add: l_def u_def)
  have st: "strip s = rev (dropWhile isspace (rev u))"
    by (simp add: strip_def lstrip_def rstrip_def u_def)
  have "u = rev (dropWhile isspace (rev u)) @ rev (takeWhile isspace (rev u))"
    by (metis rev_append rev_rev_ident takeWhile_dropWhile_id)
  then have u: "u = strip s @ r" by (simp only: st r_def)
  have wl: "list_all isspace l"
    unfolding l_def list_all_iff by (auto dest: set_takeWhileD)
  have wr: "list_all isspace r"
    unfolding r_def list_all_iff by (auto dest: set_takeWhileD)
  have ends: "strip s = [] \<or> (\<not> isspace (hd (strip s)) \<and> \<not> isspace (last (strip s)))"
  proof (cases "strip s = []")
    case True
    then show ?thesis by simp
  next
    case False
    then have ne: "dropWhile isspace (rev u) \<noteq> []" by (simp add: st)
    then have "\<not> isspace (hd (dropWhile isspace (rev u)))" by (rule hd_dropWhile)
    then have lastns: "\<not> isspace (last (strip s))" using ne by (simp add: st last_rev)
    from False u have "u \<noteq> []" by auto
    then have "\<not> isspace (hd u)" unfolding u_def by (rule hd_dropWhile)
    moreover from False u have "hd u = hd (strip s)" by (metis hd_append2)
    ultimately show ?thesis using lastns by simp
  qed
  from s u wl wr ends show ?thesis by auto
qed

section \<open>Properties\<close>

text \<open>
  C5. For every finite number \<open>x\<close>, \<open>number_to_pattern\<close> returns a result whose pattern is
  chosen by the divisibility of \<open>x\<close> itself, in this order: a multiple of 7 gives wave,
  else a multiple of 5 sweep, else a multiple of 3 arpeggio, else a multiple of 2 pulse,
  else steady; \<open>is_negative\<close> is \<open>x < 0\<close> and \<open>magnitude\<close> is the absolute value.
\<close>

theorem number_to_pattern_divisibility:
  "\<exists>d. number_to_pattern (Finite x) = Inr d
     \<and> dict_get d (lit ''pattern'') = Some (PStr
         (if \<exists>k::int. x = 7 * of_int k then lit ''wave''
          else if \<exists>k::int. x = 5 * of_int k then lit ''sweep''
          else if \<exists>k::int. x = 3 * of_int k then lit ''arpeggio''
          else if \<exists>k::int. x = 2 * of_int k then lit ''pulse''
          else lit ''steady''))
     \<and> dict_get d (lit ''is_negative'') = Some (PBool (x < 0))
     \<and> dict_get d (lit ''magnitude'') = Some (PFloat (Finite \<bar>x\<bar>))"
  by (simp add: number_to_pattern_def Let_def dict_get_def lit_eq_iff py_mod_zero_iff)

text \<open>
  The instances the specification lists: 49, 25, 9, 4 and 1 give wave, sweep, arpeggio,
  pulse and steady, and \<open>- 10\<close> is negative with magnitude 10.
\<close>

theorem number_to_pattern_examples:
  "(\<exists>d. number_to_pattern (Finite 49) = Inr d
      \<and> dict_get d (lit ''pattern'') = Some (PStr (lit ''wave'')))
   \<and> (\<exists>d. number_to_pattern (Finite 25) = Inr d
      \<and> dict_get d (lit ''pattern'') = Some (PStr (lit ''sweep'')))
   \<and> (\<exists>d. number_to_pattern (Finite 9) = Inr d
      \<and> dict_get d (lit ''pattern'') = Some (PStr (lit ''arpeggio'')))
   \<and> (\<exists>d. number_to_pattern (Finite 4) = Inr d
      \<and> dict_get d (lit ''pattern'') = Some (PStr (lit ''pulse'')))
   \<and> (\<exists>d. number_to_pattern (Finite 1) = Inr d
      \<and> dict_get d (lit ''pattern'') = Some (PStr (lit ''steady'')))
   \<and> (\<exists>d. number_to_pattern (Finite (- 10)) = Inr d
      \<and> dict_get d (lit ''pattern'') = Some (PStr (lit ''sweep''))
      \<and> dict_get d (lit ''is_negative'') = Some (PBool True)
      \<and> dict_get d (lit ''magnitude'') = Some (PFloat (Finite 10)))"
proof -
  have m49: "(\<exists>k::int. (49::real) = 7 * of_int k) = True"
    unfolding multiple_numeral by simp
  have m25: "(\<exists>k::int. (25::real) = 7 * of_int k) = False"
    "(\<exists>k::int. (25::real) = 5 * of_int k) = True"
    unfolding multiple_numeral by simp_all
  have m9: "(\<exists>k::int. (9::real) = 7 * of_int k) = False"
    "(\<exists>k::int. (9::real) = 5 * of_int k) = False"
    "(\<exists>k::int. (9::real) = 3 * of_int k) = True"
    unfolding multiple_numeral by simp_all
  have m4: "(\<exists>k::int. (4::real) = 7 * of_int k) = False"
    "(\<exists>k::int. (4::real) = 5 * of_int k) = False"
    "(\<exists>k::int. (4::real) = 3 * of_int k) = False"
    "(\<exists>k::int. (4::real) = 2 * of_int k) = True"
    unfolding multiple_numeral by simp_all
  have m1: "(\<exists>k::int. (1::real) = 7 * of_int k) = False"
    "(\<exists>k::int. (1::real) = 5 * of_int k) = False"
    "(\<exists>k::int. (1::real) = 3 * of_int k) = False"
    "(\<exists>k::int. (1::real) = 2 * of_int k) = False"
    unfolding multiple_one by simp_all
  have m10: "(\<exists>k::int. (- 10::real) = 7 * of_int k) = False"
    "(\<exists>k::int. (- 10::real) = 5 * of_int k) = True"
    unfolding multiple_neg_numeral by simp_all
  note r49 = number_to_pattern_divisibility [of 49, unfolded m49 if_True]
  note r25 = number_to_pattern_divisibility [of 25, unfolded m25 if_True if_False]
  note r9 = number_to_pattern_divisibility [of 9, unfolded m9 if_True if_False]
  note r4 = number_to_pattern_divisibility [of 4, unfolded m4 if_True if_False]
  note r1 = number_to_pattern_divisibility [of 1, unfolded m1 if_True if_False]
  note r10 = number_to_pattern_divisibility [of "- 10", unfolded m10 if_True if_False]
  from r49 have "\<exists>d. number_to_pattern (Finite 49) = Inr d
      \<and> dict_get d (lit ''pattern'') = Some (PStr (lit ''wave''))"
    by blast
  moreover from r25 have "\<exists>d. number_to_pattern (Finite 25) = Inr d
      \<and> dict_get d (lit ''pattern'') = Some (PStr (lit ''sweep''))"
    by blast
  moreover from r9 have "\<exists>d. number_to_pattern (Finite 9) = Inr d
      \<and> dict_get d (lit ''pattern'') = Some (PStr (lit ''arpeggio''))"
    by blast
  moreover from r4 have "\<exists>d. number_to_pattern (Finite 4) = Inr d
      \<and> dict_get d (lit ''pattern'') = Some (PStr (lit ''pulse''))"
    by blast
  moreover from r1 have "\<exists>d. number_to_pattern (Finite 1) = Inr d
      \<and> dict_get d (lit ''pattern'') = Some (PStr (lit ''steady''))"
    by blast
  moreover from r10 have "\<exists>d. number_to_pattern (Finite (- 10)) = Inr d
      \<and> dict_get d (lit ''pattern'') = Some (PStr (lit ''sweep''))
      \<and> dict_get d (lit ''is_negative'') = Some (PBool True)
      \<and> dict_get d (lit ''magnitude'') = Some (PFloat (Finite 10))"
    by simp
  ultimately show ?thesis by blast
qed


text \<open>
  C9. A user whose hashed id has no record reads the defaults: volume 50, speed 5,
  intensity 70, scale pentatonic and no presets. \<open>set_preferences\<close> stores what it
  returns, and in it every key of the partial record has the partial's value and every
  other key the value it had before.
\<close>

theorem set_preferences_merges:
  assumes "distinct (map fst partial)"
  shows "(prefs (get_user_id P user_id) = None \<longrightarrow>
           get_preferences P prefs user_id =
             [(lit ''volume'', PInt 50), (lit ''speed'', PInt 5), (lit ''intensity'', PInt 70),
              (lit ''scale'', PStr (lit ''pentatonic'')), (lit ''presets'', PList [])])
       \<and> get_preferences P (fst (set_preferences P prefs user_id partial)) user_id
           = snd (set_preferences P prefs user_id partial)
       \<and> dict_get (snd (set_preferences P prefs user_id partial)) k
           = (case dict_get partial k of
                Some v \<Rightarrow> Some v
              | None \<Rightarrow> dict_get (get_preferences P prefs user_id) k)"
  using assms
  by (simp add: get_preferences_def set_preferences_def default_preferences_def Let_def
      dict_get_def map_of_dict_update split: option.splits)

text \<open>After \<open>set\<close> with volume 80 a new user reads volume 80 and still speed 5.\<close>

theorem set_preferences_volume:
  "distinct (map fst [(lit ''volume'', PInt 80)])
   \<and> get_preferences cpython_excerpt Map.empty (lit ''u'') =
        [(lit ''volume'', PInt 50), (lit ''speed'', PInt 5), (lit ''intensity'', PInt 70),
         (lit ''scale'', PStr (lit ''pentatonic'')), (lit ''presets'', PList [])]
   \<and> dict_get (get_preferences cpython_excerpt
         (fst (set_preferences cpython_excerpt Map.empty (lit ''u'') [(lit ''volume'', PInt 80)]))
         (lit ''u'')) (lit ''volume'') = Some (PInt 80)
   \<and> dict_get (get_preferences cpython_excerpt
         (fst (set_preferences cpython_excerpt Map.empty (lit ''u'') [(lit ''volume'', PInt 80)]))
         (lit ''u'')) (lit ''speed'') = Some (PInt 5)"
proof -
  have d: "distinct (map fst [(lit ''volume'', PInt 80)])" by simp
  have n: "Map.empty (get_user_id cpython_excerpt (lit ''u'')) = None" by simp
  note t = set_preferences_merges [OF d, of Map.empty cpython_excerpt "lit ''u''"]
  from t [of "lit ''volume''"] t [of "lit ''speed''"] d show ?thesis
    by (simp add: dict_get_def lit_eq_iff get_preferences_def default_preferences_def)
qed

text \<open>
  C1. Fifteen presets, named 0 to 14, added to a new user: ten are stored, and they are
  the first ten. \<open>presets[:10]\<close> cuts the list at its end, where \<open>append\<close> has just put
  the new preset, so from the eleventh call on the preset that is added is the one dropped.
\<close>

theorem add_preset_fifteen:
  "\<exists>prefs'. add_presets P Map.empty user_id
        (map (\<lambda>i. [(lit ''name'', PInt i)]) [0, 1, 2, 3, 4, 5, 6, 7, 8, 9, 10, 11, 12, 13, 14])
          = Inr prefs'
     \<and> preset_names (get_preferences P prefs' user_id)
          = map PInt [0, 1, 2, 3, 4, 5, 6, 7, 8, 9]"
  by (simp add: add_preset_def get_preferences_def set_preferences_def default_preferences_def
      dict_get_def lit_eq_iff Let_def preset_names_def)


text \<open>
  C2. \<open>char_to_frequency\<close> is not total on the strings of one code point. The upper-case
  form of \<open>U+00DF\<close> (sharp s) is the two letters SS, and \<open>ord\<close> raises \<open>TypeError\<close> on
  it. The upper-case form of \<open>U+0131\<close> (dotless i) is the ASCII letter I, so this non-ASCII
  character gets the frequency of I, 19 semitones above the base, and not the base 220.
\<close>

theorem char_to_frequency_sharp_s:
  "char_to_frequency cpython_excerpt (ContentMapper (lit ''pentatonic'')) [0xDF] = Inl TypeError
   \<and> char_to_frequency cpython_excerpt (ContentMapper (lit ''pentatonic'')) [0x131]
       = Inr (220 * 2 powr (19 / 12))"
  by (simp add: char_to_frequency_def upper_def upper_char_def cpython_excerpt_def
      ContentMapper_def get_scale_def PENTATONIC_SCALE_def BASE_FREQUENCY_def)

text \<open>
  C8. \<open>text_to_frequencies\<close> returns no sequence for the six characters of the German
  word for street: at the sharp s the \<open>TypeError\<close> of \<open>char_to_frequency\<close> ends the call.
\<close>

theorem text_to_frequencies_sharp_s:
  "text_to_frequencies cpython_excerpt (ContentMapper (lit ''pentatonic''))
     [0x53, 0x74, 0x72, 0x61, 0xDF, 0x65] = Inl TypeError"
  by (simp add: text_to_frequencies_def strip_def lstrip_def rstrip_def isspace_def
      char_to_frequency_def upper_def upper_char_def cpython_excerpt_def
      ContentMapper_def get_scale_def PENTATONIC_SCALE_def)

text \<open>
  C3. \<open>hex_to_rgb\<close> returns a result for \<open>-1-1-1\<close>, although the minus sign is not a
  hexadecimal digit, and its three values are negative: \<open>int(s, 16)\<close> reads each two
  characters as a signed number.
\<close>

theorem hex_to_rgb_signed:
  "hex_to_rgb cpython_excerpt (lit ''-1-1-1'') = Some (- 1, - 1, - 1)"
  by (simp add: hex_to_rgb_def lit_def lstrip_def int_base16_def c_isspace_def
      is_hexdigit_def is_digit_def hex_value_def digit_value_def)

text \<open>
  C7. \<open>color_to_sound\<close> returns no result for \<open>-1+1+0\<close>: \<open>hex_to_rgb\<close> parses it to
  \<open>(- 1, 1, 0)\<close>, the largest and the smallest channel add up to zero, and the saturation's
  division raises \<open>ZeroDivisionError\<close>.
\<close>

theorem color_to_sound_division_by_zero:
  "hex_to_rgb cpython_excerpt (lit ''-1+1+0'') = Some (- 1, 1, 0)
   \<and> color_to_sound cpython_excerpt (lit ''-1+1+0'') = Inl ZeroDivisionError"
  by (simp add: color_to_sound_def rgb_to_hsl_def hex_to_rgb_def lit_def lstrip_def
      int_base16_def c_isspace_def is_hexdigit_def is_digit_def hex_value_def digit_value_def)


text \<open>
  C4. For every string \<open>s\<close> of six hexadecimal digits, with or without a leading \<open>#\<close>,
  \<open>hex_to_rgb\<close> returns three values between 0 and 255; the complementary colour is
  \<open>#\<close> and the three complements \<open>255 - r\<close>, \<open>255 - g\<close>, \<open>255 - b\<close>, each as two
  lower-case hexadecimal digits; and \<open>hex_to_rgb\<close> of the complementary colour is the
  channel-wise complement.
\<close>

theorem complementary_color_complements:
  assumes "length h = 6" and "list_all is_hexdigit h" and "s = h \<or> s = 35 # h"
  shows "\<exists>r g b. hex_to_rgb P s = Some (r, g, b)
      \<and> 0 \<le> r \<and> r \<le> 255 \<and> 0 \<le> g \<and> g \<le> 255 \<and> 0 \<le> b \<and> b \<le> 255
      \<and> get_complementary_color P s
          = 35 # format_02x (255 - r) @ format_02x (255 - g) @ format_02x (255 - b)
      \<and> length (get_complementary_color P s) = 7
      \<and> list_all (\<lambda>c. is_digit c \<or> (97 \<le> c \<and> c \<le> 102)) (tl (get_complementary_color P s))
      \<and> hex_to_rgb P (get_complementary_color P s) = Some (255 - r, 255 - g, 255 - b)"
proof -
  from assms(1) obtain a b c d e f where h: "h = [a, b, c, d, e, f]"
    using length_six by blast
  with assms(2) have hx: "is_hexdigit a" "is_hexdigit b" "is_hexdigit c"
    "is_hexdigit d" "is_hexdigit e" "is_hexdigit f" by simp_all
  define r where "r = int (16 * digit_value a + digit_value b)"
  define g where "g = int (16 * digit_value c + digit_value d)"
  define bl where "bl = int (16 * digit_value e + digit_value f)"
  from assms(3) h have s: "s = [a, b, c, d, e, f] \<or> s = 35 # [a, b, c, d, e, f]" by simp
  have rgb: "hex_to_rgb P s = Some (r, g, bl)"
    unfolding r_def g_def bl_def by (rule hex_to_rgb_six [OF hx s])
  from hx have bounds: "0 \<le> r" "r \<le> 255" "0 \<le> g" "g \<le> 255" "0 \<le> bl" "bl \<le> 255"
    unfolding r_def g_def bl_def using is_hexdigit_bounds byte_of_digits by blast+
  have comp: "get_complementary_color P s
      = 35 # format_02x (255 - r) @ format_02x (255 - g) @ format_02x (255 - bl)"
    by (simp add: get_complementary_color_def rgb)
  from bounds have c: "0 \<le> 255 - r" "255 - r \<le> 255" "0 \<le> 255 - g" "255 - g \<le> 255"
    "0 \<le> 255 - bl" "255 - bl \<le> 255" by simp_all
  have lower: "\<And>n. n < 16 \<Longrightarrow> is_digit (hex_char n) \<or> (97 \<le> hex_char n \<and> hex_char n \<le> 102)"
    by (auto simp: hex_char_def is_digit_def)
  have dm: "\<And>n::int. 0 \<le> n \<Longrightarrow> n \<le> 255 \<Longrightarrow> nat n div 16 < 16 \<and> nat n mod 16 < 16"
    by linarith
  have shape: "length (get_complementary_color P s) = 7
      \<and> list_all (\<lambda>c. is_digit c \<or> (97 \<le> c \<and> c \<le> 102)) (tl (get_complementary_color P s))"
    using lower dm [OF c(1,2)] dm [OF c(3,4)] dm [OF c(5,6)]
    by (simp add: comp format_02x_byte [OF c(1,2)] format_02x_byte [OF c(3,4)]
        format_02x_byte [OF c(5,6)])
  have again: "hex_to_rgb P (get_complementary_color P s) = Some (255 - r, 255 - g, 255 - bl)"
    unfolding comp by (rule complement_six [OF bounds])
  from rgb bounds comp shape again show ?thesis by blast
qed

text \<open>Red: \<open>#FF0000\<close> is \<open>(255, 0, 0)\<close>, its complementary colour \<open>#00ffff\<close>.\<close>

theorem complementary_color_red:
  "length (lit ''FF0000'') = 6 \<and> list_all is_hexdigit (lit ''FF0000'')
   \<and> hex_to_rgb cpython_excerpt (lit ''#FF0000'') = Some (255, 0, 0)
   \<and> get_complementary_color cpython_excerpt (lit ''#FF0000'') = lit ''#00ffff''
   \<and> hex_to_rgb cpython_excerpt (get_complementary_color cpython_excerpt (lit ''#FF0000''))
       = Some (0, 255, 255)"
proof -
  have l: "length (lit ''FF0000'') = 6" by (simp add: lit_def)
  have x: "list_all is_hexdigit (lit ''FF0000'')"
    by (simp add: lit_def is_hexdigit_def is_digit_def)
  have s: "lit ''#FF0000'' = lit ''FF0000'' \<or> lit ''#FF0000'' = 35 # lit ''FF0000''"
    by (simp add: lit_def)
  have v: "hex_to_rgb cpython_excerpt (lit ''#FF0000'') = Some (255, 0, 0)"
    by (simp add: hex_to_rgb_def lit_def lstrip_def int_base16_def c_isspace_def
        is_hexdigit_def is_digit_def hex_value_def digit_value_def)
  from complementary_color_complements [OF l x s, of cpython_excerpt] v
  have "hex_to_rgb cpython_excerpt (get_complementary_color cpython_excerpt (lit ''#FF0000''))
       = Some (0, 255, 255)" by auto
  moreover have "get_complementary_color cpython_excerpt (lit ''#FF0000'') = lit ''#00ffff''"
    unfolding get_complementary_color_def v by (simp add: format_02x_def hex_char_def lit_def)
  ultimately show ?thesis using l x v by simp
qed


text \<open>
  C6. \<open>detect_content_type\<close> decides in this order, on the input itself. A value that
  is not a string is unknown with no value, and so is a string of nothing but whitespace,
  the empty one among them. Every other string is whitespace, then a trimmed part \<open>t\<close> that
  neither begins nor ends with whitespace, then whitespace. If \<open>t\<close> is \<open>#\<close> and three or
  six hexadecimal digits, the input is a colour with the value \<open>t\<close>, the \<open>#\<close> included.
  Otherwise, if \<open>float\<close> parses \<open>t\<close>, it is a number with the parsed value. Otherwise
  it is text with the value \<open>t\<close>.
\<close>

theorem detect_content_type_order:
  assumes "list_all isspace l" and "list_all isspace r"
    and "t = [] \<or> (\<not> isspace (hd t) \<and> \<not> isspace (last t))"
  shows
   "(\<not> is_str content \<longrightarrow>
      detect_content_type P content = [(lit ''type'', PStr (lit ''unknown'')), (lit ''value'', PNone)])
   \<and> (list_all isspace s \<longrightarrow>
      detect_content_type P (PStr s)
        = [(lit ''type'', PStr (lit ''unknown'')), (lit ''value'', PNone)])
   \<and> (t = [] \<longrightarrow>
      detect_content_type P (PStr (l @ t @ r))
        = [(lit ''type'', PStr (lit ''unknown'')), (lit ''value'', PNone)])
   \<and> (t = 35 # h \<and> (length h = 3 \<or> length h = 6) \<and> list_all is_hexdigit h \<longrightarrow>
      detect_content_type P (PStr (l @ t @ r))
        = [(lit ''type'', PStr (lit ''color'')), (lit ''value'', PStr t)])
   \<and> (\<not> (\<exists>h. t = 35 # h \<and> (length h = 3 \<or> length h = 6) \<and> list_all is_hexdigit h)
        \<and> py_float P t = Some x \<longrightarrow>
      detect_content_type P (PStr (l @ t @ r))
        = [(lit ''type'', PStr (lit ''number'')), (lit ''value'', PFloat x)])
   \<and> (\<not> (\<exists>h. t = 35 # h \<and> (length h = 3 \<or> length h = 6) \<and> list_all is_hexdigit h)
        \<and> py_float P t = None \<and> t \<noteq> [] \<longrightarrow>
      detect_content_type P (PStr (l @ t @ r))
        = [(lit ''type'', PStr (lit ''text'')), (lit ''value'', PStr t)])"
proof -
  have nonstr: "\<not> is_str content \<Longrightarrow>
      detect_content_type P content = [(lit ''type'', PStr (lit ''unknown'')), (lit ''value'', PNone)]"
    by (simp add: detect_content_type_def)
  have blank: "list_all isspace s \<Longrightarrow>
      detect_content_type P (PStr s)
        = [(lit ''type'', PStr (lit ''unknown'')), (lit ''value'', PNone)]"
    by (simp add: detect_content_type_str strip_whitespace py_float_empty)
  have st: "strip (l @ t @ r) = t"
    using assms by (rule strip_padded)
  have str: "detect_content_type P (PStr (l @ t @ r)) =
   (if l @ t @ r = [] then [(lit ''type'', PStr (lit ''unknown'')), (lit ''value'', PNone)]
    else if \<exists>h. t = 35 # h \<and> (length h = 3 \<or> length h = 6) \<and> list_all is_hexdigit h
    then [(lit ''type'', PStr (lit ''color'')), (lit ''value'', PStr t)]
    else (case py_float P t of
            Some num \<Rightarrow> [(lit ''type'', PStr (lit ''number'')), (lit ''value'', PFloat num)]
          | None \<Rightarrow>
              if t \<noteq> []
              then [(lit ''type'', PStr (lit ''text'')), (lit ''value'', PStr t)]
              else [(lit ''type'', PStr (lit ''unknown'')), (lit ''value'', PNone)]))"
    by (simp only: detect_content_type_str st)
  have none: "t = [] \<Longrightarrow>
      detect_content_type P (PStr (l @ t @ r))
        = [(lit ''type'', PStr (lit ''unknown'')), (lit ''value'', PNone)]"
    unfolding str by (simp add: py_float_empty)
  have color: "t = 35 # h \<and> (length h = 3 \<or> length h = 6) \<and> list_all is_hexdigit h \<Longrightarrow>
      detect_content_type P (PStr (l @ t @ r))
        = [(lit ''type'', PStr (lit ''color'')), (lit ''value'', PStr t)]"
    unfolding str by auto
  have number:
    "\<not> (\<exists>h. t = 35 # h \<and> (length h = 3 \<or> length h = 6) \<and> list_all is_hexdigit h)
        \<and> py_float P t = Some x \<Longrightarrow>
      detect_content_type P (PStr (l @ t @ r))
        = [(lit ''type'', PStr (lit ''number'')), (lit ''value'', PFloat x)]"
  proof -
    assume a: "\<not> (\<exists>h. t = 35 # h \<and> (length h = 3 \<or> length h = 6) \<and> list_all is_hexdigit h)
        \<and> py_float P t = Some x"
    then have "t \<noteq> []" using py_float_empty [of P] by auto
    then have "l @ t @ r \<noteq> []" by simp
    with a show ?thesis unfolding str by simp
  qed
  have text_case:
    "\<not> (\<exists>h. t = 35 # h \<and> (length h = 3 \<or> length h = 6) \<and> list_all is_hexdigit h)
        \<and> py_float P t = None \<and> t \<noteq> [] \<Longrightarrow>
      detect_content_type P (PStr (l @ t @ r))
        = [(lit ''type'', PStr (lit ''text'')), (lit ''value'', PStr t)]"
  proof -
    assume a: "\<not> (\<exists>h. t = 35 # h \<and> (length h = 3 \<or> length h = 6) \<and> list_all is_hexdigit h)
        \<and> py_float P t = None \<and> t \<noteq> []"
    then have "l @ t @ r \<noteq> []" by simp
    with a show ?thesis unfolding str by auto
  qed
  from nonstr blank none color number text_case show ?thesis
    by (intro conjI impI) assumption+
qed


text \<open>
  The instances the specification lists: \<open>#FF0000\<close> is a colour, \<open>42\<close> the number 42,
  \<open>hello\<close> text, the empty string unknown; so is the integer 123, which is not a string.
  With whitespace: three blanks are unknown, \<open>42\<close> between blanks is the number 42,
  \<open>#abc\<close> between blanks is the colour \<open>#abc\<close>, and \<open>Hello World\<close> after a tab and
  before a line feed is the text \<open>Hello World\<close>, its inner blank kept.
\<close>

theorem detect_content_type_examples:
  "detect_content_type cpython_excerpt (PStr (lit ''#FF0000''))
     = [(lit ''type'', PStr (lit ''color'')), (lit ''value'', PStr (lit ''#FF0000''))]
   \<and> detect_content_type cpython_excerpt (PStr (lit ''42''))
     = [(lit ''type'', PStr (lit ''number'')), (lit ''value'', PFloat (Finite 42))]
   \<and> detect_content_type cpython_excerpt (PStr (lit ''hello''))
     = [(lit ''type'', PStr (lit ''text'')), (lit ''value'', PStr (lit ''hello''))]
   \<and> detect_content_type cpython_excerpt (PStr (lit ''''))
     = [(lit ''type'', PStr (lit ''unknown'')), (lit ''value'', PNone)]
   \<and> detect_content_type cpython_excerpt (PInt 123)
     = [(lit ''type'', PStr (lit ''unknown'')), (lit ''value'', PNone)]
   \<and> detect_content_type cpython_excerpt (PStr (lit ''   ''))
     = [(lit ''type'', PStr (lit ''unknown'')), (lit ''value'', PNone)]
   \<and> detect_content_type cpython_excerpt (PStr (lit ''  42  ''))
     = [(lit ''type'', PStr (lit ''number'')), (lit ''value'', PFloat (Finite 42))]
   \<and> detect_content_type cpython_excerpt (PStr (lit '' #abc ''))
     = [(lit ''type'', PStr (lit ''color'')), (lit ''value'', PStr (lit ''#abc''))]
   \<and> detect_content_type cpython_excerpt (PStr (9 # lit ''Hello World'' @ [10]))
     = [(lit ''type'', PStr (lit ''text'')), (lit ''value'', PStr (lit ''Hello World''))]"
proof -
  have w0: "list_all isspace []" by simp
  have w1: "list_all isspace (lit '' '')" and w2: "list_all isspace (lit ''  '')"
    and w3: "list_all isspace (lit ''   '')" and w9: "list_all isspace [9]"
    and w10: "list_all isspace [10]"
    by (simp_all add: lit_def isspace_def)
  have e1: "lit ''#FF0000'' = []
      \<or> (\<not> isspace (hd (lit ''#FF0000'')) \<and> \<not> isspace (last (lit ''#FF0000'')))"
    and e2: "lit ''42'' = [] \<or> (\<not> isspace (hd (lit ''42'')) \<and> \<not> isspace (last (lit ''42'')))"
    and e3: "lit ''hello'' = []
      \<or> (\<not> isspace (hd (lit ''hello'')) \<and> \<not> isspace (last (lit ''hello'')))"
    and e4: "([]::pystr) = [] \<or> (\<not> isspace (hd []) \<and> \<not> isspace (last []))"
    and e5: "lit ''#abc'' = []
      \<or> (\<not> isspace (hd (lit ''#abc'')) \<and> \<not> isspace (last (lit ''#abc'')))"
    and e6: "lit ''Hello World'' = []
      \<or> (\<not> isspace (hd (lit ''Hello World'')) \<and> \<not> isspace (last (lit ''Hello World'')))"
    by (simp_all add: lit_def isspace_def)
  have h1: "lit ''#FF0000'' = 35 # lit ''FF0000''
      \<and> (length (lit ''FF0000'') = 3 \<or> length (lit ''FF0000'') = 6)
      \<and> list_all is_hexdigit (lit ''FF0000'')"
    and h5: "lit ''#abc'' = 35 # lit ''abc''
      \<and> (length (lit ''abc'') = 3 \<or> length (lit ''abc'') = 6)
      \<and> list_all is_hexdigit (lit ''abc'')"
    by (simp_all add: lit_def is_hexdigit_def is_digit_def)
  have n2: "\<not> (\<exists>h. lit ''42'' = 35 # h \<and> (length h = 3 \<or> length h = 6)
        \<and> list_all is_hexdigit h)"
    and n3: "\<not> (\<exists>h. lit ''hello'' = 35 # h \<and> (length h = 3 \<or> length h = 6)
        \<and> list_all is_hexdigit h)"
    and n6: "\<not> (\<exists>h. lit ''Hello World'' = 35 # h \<and> (length h = 3 \<or> length h = 6)
        \<and> list_all is_hexdigit h)"
    by (simp_all add: lit_def)
  have f2: "py_float cpython_excerpt (lit ''42'') = Some (Finite 42)"
    by (simp add: py_float_def lit_def lstrip_def rstrip_def c_isspace_def is_digit_def
        parse_decimal_def split_sign_def dec_value_def cpython_excerpt_def)
  have f3: "py_float cpython_excerpt (lit ''hello'') = None"
    by (simp add: py_float_def lit_def lstrip_def rstrip_def c_isspace_def is_digit_def
        parse_decimal_def split_sign_def parse_inf_or_nan_def ascii_lower_def)
  have f6: "py_float cpython_excerpt (lit ''Hello World'') = None"
    by (simp add: py_float_def lit_def lstrip_def rstrip_def c_isspace_def is_digit_def
        parse_decimal_def split_sign_def parse_inf_or_nan_def ascii_lower_def)
  have a7: "lit ''  '' @ lit ''42'' @ lit ''  '' = lit ''  42  ''"
    and a8: "lit '' '' @ lit ''#abc'' @ lit '' '' = lit '' #abc ''"
    and a9: "[9] @ lit ''Hello World'' @ [10] = 9 # lit ''Hello World'' @ [10]"
    by (simp_all add: lit_def)
  have ne: "lit ''hello'' \<noteq> []" "lit ''Hello World'' \<noteq> []" by (simp_all add: lit_def)
  note t = detect_content_type_order [where P = cpython_excerpt]
  from t [OF w0 w0 e1, of "PInt 123" "lit ''   ''" "lit ''FF0000''" "Finite 42"] h1 w3
  have c1: "detect_content_type cpython_excerpt (PStr (lit ''#FF0000''))
     = [(lit ''type'', PStr (lit ''color'')), (lit ''value'', PStr (lit ''#FF0000''))]"
    and c5: "detect_content_type cpython_excerpt (PInt 123)
     = [(lit ''type'', PStr (lit ''unknown'')), (lit ''value'', PNone)]"
    and c6: "detect_content_type cpython_excerpt (PStr (lit ''   ''))
     = [(lit ''type'', PStr (lit ''unknown'')), (lit ''value'', PNone)]"
    by simp_all
  from t [OF w0 w0 e2, of "PInt 123" "[]" _ "Finite 42"] n2 f2
  have c2: "detect_content_type cpython_excerpt (PStr (lit ''42''))
     = [(lit ''type'', PStr (lit ''number'')), (lit ''value'', PFloat (Finite 42))]"
    by simp
  from t [OF w0 w0 e3, of "PInt 123" "[]" _ "Finite 42"] n3 f3 ne
  have c3: "detect_content_type cpython_excerpt (PStr (lit ''hello''))
     = [(lit ''type'', PStr (lit ''text'')), (lit ''value'', PStr (lit ''hello''))]"
    by simp
  from t [OF w0 w0 e4, of "PInt 123" "[]" _ "Finite 42"]
  have c4: "detect_content_type cpython_excerpt (PStr (lit ''''))
     = [(lit ''type'', PStr (lit ''unknown'')), (lit ''value'', PNone)]"
    by (simp add: lit_def)
  from t [OF w2 w2 e2, of "PInt 123" "[]" _ "Finite 42"] n2 f2
  have c7: "detect_content_type cpython_excerpt (PStr (lit ''  42  ''))
     = [(lit ''type'', PStr (lit ''number'')), (lit ''value'', PFloat (Finite 42))]"
    unfolding a7 by simp
  from t [OF w1 w1 e5, of "PInt 123" "[]" "lit ''abc''" "Finite 42"] h5
  have c8: "detect_content_type cpython_excerpt (PStr (lit '' #abc ''))
     = [(lit ''type'', PStr (lit ''color'')), (lit ''value'', PStr (lit ''#abc''))]"
    unfolding a8 by simp
  from t [OF w9 w10 e6, of "PInt 123" "[]" _ "Finite 42"] n6 f6 ne
  have c9: "detect_content_type cpython_excerpt (PStr (9 # lit ''Hello World'' @ [10]))
     = [(lit ''type'', PStr (lit ''text'')), (lit ''value'', PStr (lit ''Hello World''))]"
    unfolding a9 by simp
  from c1 c2 c3 c4 c5 c6 c7 c8 c9 show ?thesis by simp
qed


text \<open>
  C10. The words \<open>nan\<close>, \<open>inf\<close> and \<open>infinity\<close>, in any letter case and with or without
  a sign in front, are not decimal notation, and \<open>detect_content_type\<close> makes each a
  number whose value is not finite: NaN, or the infinity of the sign. \<open>map_auto\<close> hands
  that value to \<open>number_to_pattern\<close>, whose \<open>int(abs_num)\<close> raises on it, so the
  exception is what leaves \<open>map_auto\<close>.
\<close>

theorem detect_content_type_nonfinite:
  assumes "map ascii_lower w = lit ''nan'' \<or> map ascii_lower w = lit ''inf''
      \<or> map ascii_lower w = lit ''infinity''"
    and "sg = [] \<or> sg = lit ''+'' \<or> sg = lit ''-''"
  shows "\<exists>x e. x = (if map ascii_lower w = lit ''nan'' then NaN
                    else if sg = lit ''-'' then NegInf else PosInf)
     \<and> detect_content_type P (PStr (sg @ w))
         = [(lit ''type'', PStr (lit ''number'')), (lit ''value'', PFloat x)]
     \<and> map_auto P content_mapper (PStr (sg @ w))
         = (case number_to_pattern x of
              Inl e \<Rightarrow> Inl e
            | Inr m \<Rightarrow> Inr [(lit ''detected'', PDict (detect_content_type P (PStr (sg @ w)))),
                             (lit ''mapping'', PDict m)])
     \<and> number_to_pattern x = Inl e
     \<and> map_auto P content_mapper (PStr (sg @ w)) = Inl e"
proof -
  define x where "x = (if map ascii_lower w = lit ''nan'' then NaN
                    else if sg = lit ''-'' then NegInf else PosInf)"
  from lower_letters [OF assms(1)]
  have w: "w \<noteq> []" "\<forall>c\<in>set w. (65 \<le> c \<and> c \<le> 90) \<or> (97 \<le> c \<and> c \<le> 122)"
    by simp_all
  note p = signed_letters_parse [OF w assms(2)]
  have "parse_inf_or_nan (sg @ w) = Some x"
    unfolding parse_inf_or_nan_def p(4) x_def using assms(1) by (auto simp: lit_def)
  with p(3) have fl: "py_float P (strip (sg @ w)) = Some x" by (simp add: p(1))
  from w(1) have "sg @ w \<noteq> []" by simp
  with p(1,2) fl
  have det: "detect_content_type P (PStr (sg @ w))
         = [(lit ''type'', PStr (lit ''number'')), (lit ''value'', PFloat x)]"
    by (simp add: detect_content_type_str)
  have ma: "map_auto P content_mapper (PStr (sg @ w))
         = (case number_to_pattern x of
              Inl e \<Rightarrow> Inl e
            | Inr m \<Rightarrow> Inr [(lit ''detected'', PDict (detect_content_type P (PStr (sg @ w)))),
                             (lit ''mapping'', PDict m)])"
    unfolding map_auto_def det by (simp add: dict_get_def lit_eq_iff)
  have "x = NaN \<or> x = NegInf \<or> x = PosInf" by (simp add: x_def)
  then have "\<exists>e. number_to_pattern x = Inl e"
    by (auto simp: number_to_pattern_def)
  then obtain e where e: "number_to_pattern x = Inl e" ..
  with ma have "map_auto P content_mapper (PStr (sg @ w)) = Inl e" by simp
  with det ma e x_def show ?thesis by blast
qed

text \<open>
  \<open>-NaN\<close> is the number NaN and \<open>map_auto\<close> ends in \<open>ValueError\<close>; \<open>Infinity\<close> is
  the number \<open>inf\<close> and \<open>map_auto\<close> ends in \<open>OverflowError\<close>.
\<close>

theorem detect_content_type_nan_infinity:
  "detect_content_type cpython_excerpt (PStr (lit ''-NaN''))
     = [(lit ''type'', PStr (lit ''number'')), (lit ''value'', PFloat NaN)]
   \<and> map_auto cpython_excerpt (ContentMapper (lit ''pentatonic'')) (PStr (lit ''-NaN''))
     = Inl ValueError
   \<and> detect_content_type cpython_excerpt (PStr (lit ''Infinity''))
     = [(lit ''type'', PStr (lit ''number'')), (lit ''value'', PFloat PosInf)]
   \<and> map_auto cpython_excerpt (ContentMapper (lit ''pentatonic'')) (PStr (lit ''Infinity''))
     = Inl OverflowError"
proof -
  have n: "map ascii_lower (lit ''NaN'') = lit ''nan'' \<or> map ascii_lower (lit ''NaN'') = lit ''inf''
      \<or> map ascii_lower (lit ''NaN'') = lit ''infinity''"
    by (simp add: lit_def ascii_lower_def)
  have i: "map ascii_lower (lit ''Infinity'') = lit ''nan''
      \<or> map ascii_lower (lit ''Infinity'') = lit ''inf''
      \<or> map ascii_lower (lit ''Infinity'') = lit ''infinity''"
    by (simp add: lit_def ascii_lower_def)
  have sn: "lit ''-'' = [] \<or> lit ''-'' = lit ''+'' \<or> lit ''-'' = lit ''-''" by simp
  have si: "[] = [] \<or> [] = lit ''+'' \<or> [] = lit ''-''" by simp
  have an: "lit ''-'' @ lit ''NaN'' = lit ''-NaN''" by (simp add: lit_def)
  have ln: "map ascii_lower (lit ''NaN'') = lit ''nan''" by (simp add: lit_def ascii_lower_def)
  have li: "map ascii_lower (lit ''Infinity'') \<noteq> lit ''nan''"
    by (simp add: lit_def ascii_lower_def)
  have e: "[] \<noteq> lit ''-''" by (simp add: lit_def)
  from detect_content_type_nonfinite
    [OF n sn, of cpython_excerpt "ContentMapper (lit ''pentatonic'')"]
  have "detect_content_type cpython_excerpt (PStr (lit ''-NaN''))
     = [(lit ''type'', PStr (lit ''number'')), (lit ''value'', PFloat NaN)]
   \<and> map_auto cpython_excerpt (ContentMapper (lit ''pentatonic'')) (PStr (lit ''-NaN''))
     = Inl ValueError"
    unfolding an ln by (auto simp: number_to_pattern_def)
  moreover from detect_content_type_nonfinite
    [OF i si, of cpython_excerpt "ContentMapper (lit ''pentatonic'')"]
  have "detect_content_type cpython_excerpt (PStr (lit ''Infinity''))
     = [(lit ''type'', PStr (lit ''number'')), (lit ''value'', PFloat PosInf)]
   \<and> map_auto cpython_excerpt (ContentMapper (lit ''pentatonic'')) (PStr (lit ''Infinity''))
     = Inl OverflowError"
    using li e by (auto simp: number_to_pattern_def)
  ultimately show ?thesis by simp
qed


section \<open>What holds beside the failing inputs\<close>

text \<open>
  \<open>char_to_frequency\<close> returns the base frequency for a character whose upper-case form
  is one code point that is neither a letter A to Z nor a digit; every ASCII character that
  is neither a letter nor a digit is one.
\<close>

lemma char_to_frequency_other:
  assumes "upper P [c] = [u]" and "\<not> (65 \<le> u \<and> u \<le> 90)" and "\<not> (48 \<le> u \<and> u \<le> 57)"
  shows "char_to_frequency P self [c] = Inr 220"
  using assms by (auto simp: char_to_frequency_def BASE_FREQUENCY_def)

lemma char_to_frequency_ascii_other:
  assumes "c < 128" and "\<not> (65 \<le> c \<and> c \<le> 90)" and "\<not> (97 \<le> c \<and> c \<le> 122)"
    and "\<not> (48 \<le> c \<and> c \<le> 57)"
  shows "char_to_frequency P self [c] = Inr 220"
  using assms by (auto simp: char_to_frequency_def upper_def upper_char_def BASE_FREQUENCY_def)

text \<open>When \<open>text_to_frequencies\<close> returns, it returns one entry for each character.\<close>

lemma text_to_frequencies_loop_length:
  "text_to_frequencies_loop P self acc i s = Inr r \<Longrightarrow> length r = length acc + length s"
proof (induction s arbitrary: acc i)
  case Nil
  then show ?case by simp
next
  case (Cons c s)
  then show ?case
    by (fastforce split: if_splits sum.splits)
qed

lemma text_to_frequencies_length:
  "text_to_frequencies P self s = Inr r \<Longrightarrow> length r = length s"
  using text_to_frequencies_loop_length [of P self "[]" 0 s r]
  by (simp add: text_to_frequencies_def)

text \<open>
  \<open>hex_to_rgb\<close> rejects a string that, without its leading \<open>#\<close>s, has neither three
  nor six characters, and reads three hexadecimal digits as three doubled ones.
\<close>

lemma hex_to_rgb_wrong_length:
  assumes "length (lstrip (\<lambda>c. c = 35) s) \<noteq> 3" and "length (lstrip (\<lambda>c. c = 35) s) \<noteq> 6"
  shows "hex_to_rgb P s = None"
  using assms by (simp add: hex_to_rgb_def)

lemma hex_to_rgb_three:
  assumes "is_hexdigit a" "is_hexdigit b" "is_hexdigit c" "s = [a, b, c] \<or> s = 35 # [a, b, c]"
  shows "hex_to_rgb P s
     = Some (int (17 * digit_value a), int (17 * digit_value b), int (17 * digit_value c))"
proof -
  from assms(1) have "a \<noteq> 35" using is_hexdigit_bounds by fastforce
  with assms(4) have "lstrip (\<lambda>c. c = 35) s = [a, b, c]"
    by (auto simp: lstrip_def)
  then show ?thesis
    using assms(1-3) by (simp add: hex_to_rgb_def int_base16_two_digits)
qed

text \<open>
  \<open>color_to_sound\<close> returns the error result for a string \<open>hex_to_rgb\<close> rejects, and
  the valid fields without an error for one it parses to three bytes: \<open>rgb_to_hsl\<close>
  divides by zero for no three bytes.
\<close>

lemma color_to_sound_invalid:
  "hex_to_rgb P s = None \<Longrightarrow>
   color_to_sound P s =
     Inr [(lit ''frequency'', PInt 440), (lit ''waveform'', PStr (lit ''sine'')),
          (lit ''rgb'', PNone), (lit ''hsl'', PNone),
          (lit ''error'', PStr (lit ''Invalid color format''))]"
  by (simp add: color_to_sound_def)

lemma rgb_to_hsl_bytes:
  assumes "0 \<le> r" "r \<le> 255" "0 \<le> g" "g \<le> 255" "0 \<le> b" "b \<le> 255"
  shows "\<exists>h s l. rgb_to_hsl r g b = Inr (h, s, l)"
proof -
  define x where "x = real_of_int r / 255"
  define y where "y = real_of_int g / 255"
  define z where "z = real_of_int b / 255"
  from assms have bounds: "0 \<le> x" "x \<le> 1" "0 \<le> y" "y \<le> 1" "0 \<le> z" "z \<le> 1"
    by (simp_all add: x_def y_def z_def)
  define mx where "mx = max (max x y) z"
  define mn where "mn = min (min x y) z"
  from bounds have m: "0 \<le> mn" "mn \<le> mx" "mx \<le> 1"
    by (auto simp: mx_def mn_def)
  have nz: "mx \<noteq> mn \<Longrightarrow> mx + mn \<noteq> 0" "mx \<noteq> mn \<Longrightarrow> 2 - mx - mn \<noteq> 0"
    using m by linarith+
  have "\<not> isl (rgb_to_hsl r g b)"
    using m nz unfolding rgb_to_hsl_def Let_def
    by (fold x_def y_def z_def, fold mx_def mn_def) auto
  then show ?thesis
    by (cases "rgb_to_hsl r g b") auto
qed

lemma color_to_sound_valid:
  assumes "hex_to_rgb P s = Some (r, g, b)"
    and "0 \<le> r" "r \<le> 255" "0 \<le> g" "g \<le> 255" "0 \<le> b" "b \<le> 255"
  shows "\<exists>d. color_to_sound P s = Inr d
     \<and> dict_get d (lit ''error'') = None
     \<and> dict_get d (lit ''rgb'')
         = Some (PDict [(lit ''r'', PInt r), (lit ''g'', PInt g), (lit ''b'', PInt b)])
     \<and> dict_get d (lit ''complementary'') = Some (PStr (get_complementary_color P s))"
proof -
  from rgb_to_hsl_bytes [OF assms(2-7)] obtain h sa l where "rgb_to_hsl r g b = Inr (h, sa, l)"
    by blast
  with assms(1) show ?thesis
    by (simp add: color_to_sound_def Let_def dict_get_def lit_eq_iff)
qed


end
